theory Spec2Isabelle
  imports Main "HOL-Library.Multiset"
begin

section \<open>Dates, durations and the clock\<close>

text \<open>
  \<^verbatim>\<open>azure_rag_demo.py\<close> works with naive \<^verbatim>\<open>datetime\<close> and \<^verbatim>\<open>timedelta\<close> values of the
  Python standard library. Both have microsecond resolution and a bounded range, and both
  raise \<^verbatim>\<open>OverflowError\<close> when an operation leaves the range:
  \<^item> a \<^verbatim>\<open>datetime\<close> lies between \<^verbatim>\<open>datetime.min\<close> (0001-01-01 00:00:00) and
    \<^verbatim>\<open>datetime.max\<close> (9999-12-31 23:59:59.999999); it is modelled as the number of
    microseconds since \<^verbatim>\<open>datetime.min\<close>;
  \<^item> a \<^verbatim>\<open>timedelta\<close> has between -999999999 and 999999999 whole days; it is modelled as
    a number of microseconds.
  The argument \<^verbatim>\<open>hours_back\<close> is annotated \<^verbatim>\<open>int\<close>, an unbounded Python integer.
\<close>

type_synonym datetime = int
type_synonym timedelta = int

datatype error = OverflowError | Raised string

definition us_per_minute :: int where
  "us_per_minute = 60000000"

definition us_per_hour :: int where
  "us_per_hour = 3600000000"

definition us_per_day :: int where
  "us_per_day = 86400000000"

definition datetime_limit :: int where
  \<comment> \<open>the first instant after \<^verbatim>\<open>datetime.max\<close>: \<^verbatim>\<open>date.max.toordinal()\<close> is 3652059\<close>
  "datetime_limit = 3652059 * us_per_day"

definition valid_datetime :: "datetime \<Rightarrow> bool" where
  "valid_datetime t = (0 \<le> t \<and> t < datetime_limit)"

definition timedelta_us :: "int \<Rightarrow> error + timedelta" where
  "timedelta_us us =
     (if - 999999999 * us_per_day \<le> us \<and> us < 1000000000 * us_per_day
      then Inr us else Inl OverflowError)"

definition timedelta_hours :: "int \<Rightarrow> error + timedelta" where
  \<comment> \<open>\<^verbatim>\<open>timedelta(hours=h)\<close>\<close>
  "timedelta_hours h = timedelta_us (h * us_per_hour)"

definition timedelta_minutes :: "int \<Rightarrow> error + timedelta" where
  \<comment> \<open>\<^verbatim>\<open>timedelta(minutes=m)\<close>\<close>
  "timedelta_minutes m = timedelta_us (m * us_per_minute)"

definition datetime_sub :: "datetime \<Rightarrow> timedelta \<Rightarrow> error + datetime" where
  \<comment> \<open>\<^verbatim>\<open>datetime - timedelta\<close>: "date value out of range" outside years 1..9999\<close>
  "datetime_sub t d = (if valid_datetime (t - d) then Inr (t - d) else Inl OverflowError)"

text \<open>
  The clock is the only state a call reads: the sequence of values the coming calls of
  \<^verbatim>\<open>datetime.now()\<close> will return. Reading it takes the first and leaves the rest.
  Every \<^verbatim>\<open>datetime.now()\<close> of the source is a reading of its own.
\<close>

type_synonym clock = "nat \<Rightarrow> datetime"

definition datetime_now :: "clock \<Rightarrow> datetime \<times> clock" where
  "datetime_now c = (c 0, \<lambda>n. c (Suc n))"

definition now_minus :: "error + timedelta \<Rightarrow> clock \<Rightarrow> (error + datetime) \<times> clock" where
  \<comment> \<open>\<^verbatim>\<open>datetime.now() - timedelta(...)\<close>: the clock is read first, then the duration is
      built, then subtracted\<close>
  "now_minus td c =
     (let (t, c') = datetime_now c
      in (case td of Inl e \<Rightarrow> Inl e | Inr d \<Rightarrow> datetime_sub t d, c'))"

section \<open>Message records and the built-in producers\<close>

text \<open>
  A message is the dictionary the producers build, with its five keys. The producers are
  the methods \<^verbatim>\<open>_get_latest_news\<close>, \<^verbatim>\<open>_get_company_updates\<close>, \<^verbatim>\<open>_get_market_data\<close> and
  \<^verbatim>\<open>_get_user_messages\<close> (an Isabelle name cannot start with an underscore). A
  producer takes no argument; it reads the clock and returns its records, or raises.
  The Chinese titles and contents of the source are given as their UTF-8 bytes.
\<close>

record message =
  title :: string
  content :: string
  timestamp :: datetime
  source :: string
  category :: string

type_synonym producer = "clock \<Rightarrow> (error + message list) \<times> clock"

definition technology_title :: string where
  "technology_title =
     [CHR 0xE4, CHR 0xBA, CHR 0xBA, CHR 0xE5, CHR 0xB7, CHR 0xA5, CHR 0xE6, CHR 0x99, CHR 0xBA,
      CHR 0xE8, CHR 0x83, CHR 0xBD, CHR 0xE6, CHR 0x8A, CHR 0x80, CHR 0xE6, CHR 0x9C, CHR 0xAF,
      CHR 0xE7, CHR 0xAA, CHR 0x81, CHR 0xE7, CHR 0xA0, CHR 0xB4]"

definition technology_content :: string where
  "technology_content =
     [CHR 0xE6, CHR 0x9C, CHR 0x80, CHR 0xE6, CHR 0x96, CHR 0xB0, CHR 0xE7, CHR 0x9A, CHR 0x84,
      CHR 0x41, CHR 0x49, CHR 0xE6, CHR 0xA8, CHR 0xA1, CHR 0xE5, CHR 0x9E, CHR 0x8B, CHR 0xE5,
      CHR 0x9C, CHR 0xA8, CHR 0xE5, CHR 0xA4, CHR 0x9A, CHR 0xE4, CHR 0xB8, CHR 0xAA, CHR 0xE5,
      CHR 0x9F, CHR 0xBA, CHR 0xE5, CHR 0x87, CHR 0x86, CHR 0xE6, CHR 0xB5, CHR 0x8B, CHR 0xE8,
      CHR 0xAF, CHR 0x95, CHR 0xE4, CHR 0xB8, CHR 0xAD, CHR 0xE5, CHR 0x88, CHR 0x9B, CHR 0xE4,
      CHR 0xB8, CHR 0x8B, CHR 0xE6, CHR 0x96, CHR 0xB0, CHR 0xE7, CHR 0xBA, CHR 0xAA, CHR 0xE5,
      CHR 0xBD, CHR 0x95, CHR 0xEF, CHR 0xBC, CHR 0x8C, CHR 0xE6, CHR 0x98, CHR 0xBE, CHR 0xE7,
      CHR 0xA4, CHR 0xBA, CHR 0xE5, CHR 0x87, CHR 0xBA, CHR 0xE5, CHR 0xBC, CHR 0xBA, CHR 0xE5,
      CHR 0xA4, CHR 0xA7, CHR 0xE7, CHR 0x9A, CHR 0x84, CHR 0xE6, CHR 0x8E, CHR 0xA8, CHR 0xE7,
      CHR 0x90, CHR 0x86, CHR 0xE8, CHR 0x83, CHR 0xBD, CHR 0xE5, CHR 0x8A, CHR 0x9B, CHR 0xE3,
      CHR 0x80, CHR 0x82]"

definition business_title :: string where
  "business_title =
     [CHR 0xE4, CHR 0xBA, CHR 0x91, CHR 0xE8, CHR 0xAE, CHR 0xA1, CHR 0xE7, CHR 0xAE, CHR 0x97,
      CHR 0xE5, CHR 0xB8, CHR 0x82, CHR 0xE5, CHR 0x9C, CHR 0xBA, CHR 0xE5, CHR 0xA2, CHR 0x9E,
      CHR 0xE9, CHR 0x95, CHR 0xBF]"

definition business_content :: string where
  "business_content =
     [CHR 0x32, CHR 0x30, CHR 0x32, CHR 0x34, CHR 0xE5, CHR 0xB9, CHR 0xB4, CHR 0xE4, CHR 0xBA,
      CHR 0x91, CHR 0xE8, CHR 0xAE, CHR 0xA1, CHR 0xE7, CHR 0xAE, CHR 0x97, CHR 0xE5, CHR 0xB8,
      CHR 0x82, CHR 0xE5, CHR 0x9C, CHR 0xBA, CHR 0xE9, CHR 0xA2, CHR 0x84, CHR 0xE8, CHR 0xAE,
      CHR 0xA1, CHR 0xE5, CHR 0xB0, CHR 0x86, CHR 0xE5, CHR 0xA2, CHR 0x9E, CHR 0xE9, CHR 0x95,
      CHR 0xBF, CHR 0x32, CHR 0x35, CHR 0x25, CHR 0xEF, CHR 0xBC, CHR 0x8C, CHR 0xE4, CHR 0xB8,
      CHR 0xBB, CHR 0xE8, CHR 0xA6, CHR 0x81, CHR 0xE9, CHR 0xA9, CHR 0xB1, CHR 0xE5, CHR 0x8A,
      CHR 0xA8, CHR 0xE5, CHR 0x8A, CHR 0x9B, CHR 0xE6, CHR 0x9D, CHR 0xA5, CHR 0xE8, CHR 0x87,
      CHR 0xAA, CHR 0x41, CHR 0x49, CHR 0xE5, CHR 0x92, CHR 0x8C, CHR 0xE6, CHR 0x95, CHR 0xB0,
      CHR 0xE6, CHR 0x8D, CHR 0xAE, CHR 0xE5, CHR 0x88, CHR 0x86, CHR 0xE6, CHR 0x9E, CHR 0x90,
      CHR 0xE9, CHR 0x9C, CHR 0x80, CHR 0xE6, CHR 0xB1, CHR 0x82, CHR 0xE3, CHR 0x80, CHR 0x82]"

definition product_title :: string where
  "product_title =
     [CHR 0xE6, CHR 0x96, CHR 0xB0, CHR 0xE4, CHR 0xBA, CHR 0xA7, CHR 0xE5, CHR 0x93, CHR 0x81,
      CHR 0xE5, CHR 0x8F, CHR 0x91, CHR 0xE5, CHR 0xB8, CHR 0x83]"

definition product_content :: string where
  "product_content =
     [CHR 0xE5, CHR 0x85, CHR 0xAC, CHR 0xE5, CHR 0x8F, CHR 0xB8, CHR 0xE5, CHR 0xB0, CHR 0x86,
      CHR 0xE4, CHR 0xBA, CHR 0x8E, CHR 0xE4, CHR 0xB8, CHR 0x8B, CHR 0xE6, CHR 0x9C, CHR 0x88,
      CHR 0xE5, CHR 0x8F, CHR 0x91, CHR 0xE5, CHR 0xB8, CHR 0x83, CHR 0xE5, CHR 0x9F, CHR 0xBA,
      CHR 0xE4, CHR 0xBA, CHR 0x8E, CHR 0x41, CHR 0x49, CHR 0xE7, CHR 0x9A, CHR 0x84, CHR 0xE6,
      CHR 0x96, CHR 0xB0, CHR 0xE4, CHR 0xB8, CHR 0x80, CHR 0xE4, CHR 0xBB, CHR 0xA3, CHR 0xE5,
      CHR 0xAE, CHR 0xA2, CHR 0xE6, CHR 0x88, CHR 0xB7, CHR 0xE6, CHR 0x9C, CHR 0x8D, CHR 0xE5,
      CHR 0x8A, CHR 0xA1, CHR 0xE5, CHR 0xB9, CHR 0xB3, CHR 0xE5, CHR 0x8F, CHR 0xB0, CHR 0xEF,
      CHR 0xBC, CHR 0x8C, CHR 0xE9, CHR 0xA2, CHR 0x84, CHR 0xE8, CHR 0xAE, CHR 0xA1, CHR 0xE5,
      CHR 0xB0, CHR 0x86, CHR 0xE6, CHR 0x8F, CHR 0x90, CHR 0xE9, CHR 0xAB, CHR 0x98, CHR 0xE6,
      CHR 0x95, CHR 0x88, CHR 0xE7, CHR 0x8E, CHR 0x87, CHR 0x33, CHR 0x30, CHR 0x25, CHR 0xE3,
      CHR 0x80, CHR 0x82]"

definition finance_title :: string where
  "finance_title =
     [CHR 0xE8, CHR 0x82, CHR 0xA1, CHR 0xE5, CHR 0xB8, CHR 0x82, CHR 0xE5, CHR 0x8A, CHR 0xA8,
      CHR 0xE6, CHR 0x80, CHR 0x81]"

definition finance_content :: string where
  "finance_content =
     [CHR 0xE7, CHR 0xA7, CHR 0x91, CHR 0xE6, CHR 0x8A, CHR 0x80, CHR 0xE8, CHR 0x82, CHR 0xA1,
      CHR 0xE4, CHR 0xBB, CHR 0x8A, CHR 0xE6, CHR 0x97, CHR 0xA5, CHR 0xE4, CHR 0xB8, CHR 0x8A,
      CHR 0xE6, CHR 0xB6, CHR 0xA8, CHR 0x32, CHR 0x2E, CHR 0x35, CHR 0x25, CHR 0xEF, CHR 0xBC,
      CHR 0x8C, CHR 0x41, CHR 0x49, CHR 0xE7, CHR 0x9B, CHR 0xB8, CHR 0xE5, CHR 0x85, CHR 0xB3,
      CHR 0xE5, CHR 0x85, CHR 0xAC, CHR 0xE5, CHR 0x8F, CHR 0xB8, CHR 0xE8, CHR 0xA1, CHR 0xA8,
      CHR 0xE7, CHR 0x8E, CHR 0xB0, CHR 0xE7, CHR 0xAA, CHR 0x81, CHR 0xE5, CHR 0x87, CHR 0xBA,
      CHR 0xE3, CHR 0x80, CHR 0x82, CHR 0xE6, CHR 0x8A, CHR 0x95, CHR 0xE8, CHR 0xB5, CHR 0x84,
      CHR 0xE8, CHR 0x80, CHR 0x85, CHR 0xE5, CHR 0xAF, CHR 0xB9, CHR 0xE6, CHR 0x96, CHR 0xB0,
      CHR 0xE6, CHR 0x8A, CHR 0x80, CHR 0xE6, CHR 0x9C, CHR 0xAF, CHR 0xE5, CHR 0x89, CHR 0x8D,
      CHR 0xE6, CHR 0x99, CHR 0xAF, CHR 0xE4, CHR 0xBF, CHR 0x9D, CHR 0xE6, CHR 0x8C, CHR 0x81,
      CHR 0xE4, CHR 0xB9, CHR 0x90, CHR 0xE8, CHR 0xA7, CHR 0x82, CHR 0xE3, CHR 0x80, CHR 0x82]"

definition feedback_title :: string where
  "feedback_title =
     [CHR 0xE7, CHR 0x94, CHR 0xA8, CHR 0xE6, CHR 0x88, CHR 0xB7, CHR 0xE5, CHR 0x8F, CHR 0x8D,
      CHR 0xE9, CHR 0xA6, CHR 0x88]"

definition feedback_content :: string where
  "feedback_content =
     [CHR 0xE7, CHR 0x94, CHR 0xA8, CHR 0xE6, CHR 0x88, CHR 0xB7, CHR 0xE5, CHR 0x8F, CHR 0x8D,
      CHR 0xE6, CHR 0x98, CHR 0xA0, CHR 0xE6, CHR 0x96, CHR 0xB0, CHR 0xE7, CHR 0x89, CHR 0x88,
      CHR 0xE6, CHR 0x9C, CHR 0xAC, CHR 0xE7, CHR 0x95, CHR 0x8C, CHR 0xE9, CHR 0x9D, CHR 0xA2,
      CHR 0xE6, CHR 0x9B, CHR 0xB4, CHR 0xE5, CHR 0x8A, CHR 0xA0, CHR 0xE5, CHR 0x8F, CHR 0x8B,
      CHR 0xE5, CHR 0xA5, CHR 0xBD, CHR 0xEF, CHR 0xBC, CHR 0x8C, CHR 0xE4, CHR 0xBD, CHR 0x86,
      CHR 0xE5, CHR 0xB8, CHR 0x8C, CHR 0xE6, CHR 0x9C, CHR 0x9B, CHR 0xE5, CHR 0xA2, CHR 0x9E,
      CHR 0xE5, CHR 0x8A, CHR 0xA0, CHR 0xE6, CHR 0x9B, CHR 0xB4, CHR 0xE5, CHR 0xA4, CHR 0x9A,
      CHR 0xE8, CHR 0x87, CHR 0xAA, CHR 0xE5, CHR 0xAE, CHR 0x9A, CHR 0xE4, CHR 0xB9, CHR 0x89,
      CHR 0xE9, CHR 0x80, CHR 0x89, CHR 0xE9, CHR 0xA1, CHR 0xB9, CHR 0xE3, CHR 0x80, CHR 0x82]"

definition technology_message :: "datetime \<Rightarrow> message" where
  "technology_message t =
     \<lparr>title = technology_title, content = technology_content, timestamp = t,
      source = ''tech_news'', category = ''technology''\<rparr>"

definition business_message :: "datetime \<Rightarrow> message" where
  "business_message t =
     \<lparr>title = business_title, content = business_content, timestamp = t,
      source = ''business_news'', category = ''business''\<rparr>"

definition product_message :: "datetime \<Rightarrow> message" where
  "product_message t =
     \<lparr>title = product_title, content = product_content, timestamp = t,
      source = ''internal'', category = ''product''\<rparr>"

definition finance_message :: "datetime \<Rightarrow> message" where
  "finance_message t =
     \<lparr>title = finance_title, content = finance_content, timestamp = t,
      source = ''market_feed'', category = ''finance''\<rparr>"

definition feedback_message :: "datetime \<Rightarrow> message" where
  "feedback_message t =
     \<lparr>title = feedback_title, content = feedback_content, timestamp = t,
      source = ''user_feedback'', category = ''feedback''\<rparr>"

definition get_latest_news :: producer where
  "get_latest_news c =
     (case now_minus (timedelta_hours 2) c of
        (Inl e, c1) \<Rightarrow> (Inl e, c1)
      | (Inr t1, c1) \<Rightarrow>
          (case now_minus (timedelta_hours 1) c1 of
             (Inl e, c2) \<Rightarrow> (Inl e, c2)
           | (Inr t2, c2) \<Rightarrow> (Inr [technology_message t1, business_message t2], c2)))"

definition get_company_updates :: producer where
  "get_company_updates c =
     (case now_minus (timedelta_hours 3) c of
        (Inl e, c1) \<Rightarrow> (Inl e, c1)
      | (Inr t, c1) \<Rightarrow> (Inr [product_message t], c1))"

definition get_market_data :: producer where
  "get_market_data c =
     (case now_minus (timedelta_minutes 30) c of
        (Inl e, c1) \<Rightarrow> (Inl e, c1)
      | (Inr t, c1) \<Rightarrow> (Inr [finance_message t], c1))"

definition get_user_messages :: producer where
  "get_user_messages c =
     (case now_minus (timedelta_hours 4) c of
        (Inl e, c1) \<Rightarrow> (Inl e, c1)
      | (Inr t, c1) \<Rightarrow> (Inr [feedback_message t], c1))"

section \<open>The retriever\<close>

text \<open>
  \<^verbatim>\<open>self.data_sources\<close> is a dictionary from source names to producers. A Python
  dictionary iterates in insertion order, and the order decides how records with equal
  timestamps end up, so the registry is an association list in insertion order.
\<close>

record MessageRetriever =
  data_sources :: "(string \<times> producer) list"

definition MessageRetriever_init :: MessageRetriever where
  "MessageRetriever_init =
     \<lparr>data_sources =
        [(''news'', get_latest_news),
         (''company_updates'', get_company_updates),
         (''market_data'', get_market_data),
         (''user_messages'', get_user_messages)]\<rparr>"

text \<open>
  \<^verbatim>\<open>list.sort(key=..., reverse=True)\<close> is stable. CPython reverses the list, sorts it with
  a stable ascending sort and reverses it again, so that records with equal keys keep
  their order. \<^const>\<open>sort_key\<close> is a stable ascending sort.
\<close>

definition sort_reverse :: "('a \<Rightarrow> int) \<Rightarrow> 'a list \<Rightarrow> 'a list" where
  "sort_reverse key xs = rev (sort_key key (rev xs))"

text \<open>The inner loop \<^verbatim>\<open>for msg in messages\<close>, with the two nested tests.\<close>

fun append_retained ::
  "datetime \<Rightarrow> string list option \<Rightarrow> message list \<Rightarrow> message list \<Rightarrow> message list"
where
  "append_retained cutoff_time categories all_messages [] = all_messages"
| "append_retained cutoff_time categories all_messages (msg # messages) =
     append_retained cutoff_time categories
       (if timestamp msg \<ge> cutoff_time
        then (if (case categories of None \<Rightarrow> True | Some cs \<Rightarrow> category msg \<in> set cs)
              then all_messages @ [msg] else all_messages)
        else all_messages)
       messages"

text \<open>
  The outer loop \<^verbatim>\<open>for source_name, source_func in self.data_sources.items()\<close>. A
  producer that raises ends the loop: nothing in the method catches the exception.
\<close>

fun collect_messages ::
  "datetime \<Rightarrow> string list option \<Rightarrow> (string \<times> producer) list \<Rightarrow> message list \<Rightarrow> clock
     \<Rightarrow> (error + message list) \<times> clock"
where
  "collect_messages cutoff_time categories [] all_messages c = (Inr all_messages, c)"
| "collect_messages cutoff_time categories ((source_name, source_func) # rest) all_messages c =
     (case source_func c of
        (Inl e, c') \<Rightarrow> (Inl e, c')
      | (Inr messages, c') \<Rightarrow>
          collect_messages cutoff_time categories rest
            (append_retained cutoff_time categories all_messages messages) c')"

text \<open>
  The method itself. The state is the object and the clock; the result is the list, or
  the exception that left the method.
\<close>

definition get_latest_messages ::
  "int \<Rightarrow> string list option \<Rightarrow> MessageRetriever \<times> clock
     \<Rightarrow> (error + message list) \<times> MessageRetriever \<times> clock"
where
  "get_latest_messages hours_back categories s =
     (case s of (self, c) \<Rightarrow>
        (case now_minus (timedelta_hours hours_back) c of
           (Inl e, c1) \<Rightarrow> (Inl e, self, c1)
         | (Inr cutoff_time, c1) \<Rightarrow>
             (case collect_messages cutoff_time categories (data_sources self) [] c1 of
                (Inl e, c2) \<Rightarrow> (Inl e, self, c2)
              | (Inr all_messages, c2) \<Rightarrow>
                  (Inr (sort_reverse timestamp all_messages), self, c2))))"

text \<open>The defaults of the signature: \<^verbatim>\<open>hours_back=24\<close>, \<^verbatim>\<open>categories=None\<close>.\<close>

definition get_latest_messages_default ::
  "MessageRetriever \<times> clock \<Rightarrow> (error + message list) \<times> MessageRetriever \<times> clock"
where
  "get_latest_messages_default = get_latest_messages 24 None"

section \<open>Notions the properties are stated with\<close>

text \<open>
  What the producers of a registry yield when they are invoked one after the other, as
  the loop does (\<^verbatim>\<open>messages = source_func()\<close>), before any filtering: all their records
  in order, or the exception of the first producer that raises.
\<close>

fun run_sources :: "(string \<times> producer) list \<Rightarrow> clock \<Rightarrow> (error + message list) \<times> clock" where
  "run_sources [] c = (Inr [], c)"
| "run_sources ((source_name, source_func) # rest) c =
     (case source_func c of
        (Inl e, c') \<Rightarrow> (Inl e, c')
      | (Inr messages, c') \<Rightarrow>
          (case run_sources rest c' of
             (Inl e, c'') \<Rightarrow> (Inl e, c'')
           | (Inr later, c'') \<Rightarrow> (Inr (messages @ later), c'')))"

definition retained :: "datetime \<Rightarrow> string list option \<Rightarrow> message \<Rightarrow> bool" where
  "retained cutoff_time categories msg =
     (timestamp msg \<ge> cutoff_time \<and>
      (case categories of None \<Rightarrow> True | Some cs \<Rightarrow> category msg \<in> set cs))"

text \<open>
  A clock on which no time elapses, and a producer whose only effect is to read the clock
  some number of times (as the built-in producers do).
\<close>

definition frozen :: "clock \<Rightarrow> bool" where
  "frozen c = (\<forall>n. c n = c 0)"

definition only_reads_clock :: "producer \<Rightarrow> bool" where
  "only_reads_clock p = (\<forall>c. \<exists>k. snd (p c) = (\<lambda>n. c (n + k)))"

section \<open>Concrete clocks, sources and records\<close>

text \<open>
  The instant 2024-01-01 00:00:00 (\<^verbatim>\<open>date(2024, 1, 1).toordinal()\<close> is 738886), a clock
  that stands still, a clock that advances by a fixed step at each reading, a clock that
  makes one step (its first \<open>k\<close> readings are \<open>t\<close>, the later ones \<open>t + d\<close>, as naive
  local time does at a daylight-saving change), a producer that yields given records
  without reading the clock, a producer that raises, and the two records of the
  two-source scenario.
\<close>

definition new_year_2024 :: datetime where
  "new_year_2024 = 738885 * us_per_day"

definition frozen_clock :: "datetime \<Rightarrow> clock" where
  "frozen_clock t = (\<lambda>n. t)"

definition ticking_clock :: "datetime \<Rightarrow> int \<Rightarrow> clock" where
  "ticking_clock t step n = t + int n * step"

definition stepping_clock :: "datetime \<Rightarrow> nat \<Rightarrow> int \<Rightarrow> clock" where
  "stepping_clock t k d n = (if n < k then t else t + d)"

definition fixed_source :: "message list \<Rightarrow> producer" where
  "fixed_source msgs c = (Inr msgs, c)"

definition failing_source :: "string \<Rightarrow> producer" where
  "failing_source reason c = (Inl (Raised reason), c)"

definition record_a :: "datetime \<Rightarrow> message" where
  "record_a now =
     \<lparr>title = ''a'', content = ''from source A'', timestamp = now - 2 * us_per_hour,
      source = ''A'', category = ''technology''\<rparr>"

definition record_b :: "datetime \<Rightarrow> message" where
  "record_b now =
     \<lparr>title = ''b'', content = ''from source B'', timestamp = now - 30 * us_per_hour,
      source = ''B'', category = ''finance''\<rparr>"

definition scheduled_record :: "datetime \<Rightarrow> message" where
  "scheduled_record now =
     \<lparr>title = ''launch'', content = ''scheduled'', timestamp = now + 5 * us_per_hour,
      source = ''calendar'', category = ''product''\<rparr>"

section \<open>The loops, in closed form\<close>

lemma append_retained_filter:
  "append_retained cutoff_time categories all_messages messages =
     all_messages @ filter (retained cutoff_time categories) messages"
  by (induction messages arbitrary: all_messages) (simp_all add: retained_def)

lemma collect_messages_run_sources:
  "collect_messages cutoff_time categories reg all_messages c =
     (case run_sources reg c of
        (Inl e, c') \<Rightarrow> (Inl e, c')
      | (Inr produced, c') \<Rightarrow>
          (Inr (all_messages @ filter (retained cutoff_time categories) produced), c'))"
proof (induction reg arbitrary: all_messages c)
  case Nil
  show ?case by simp
next
  case (Cons p reg)
  obtain source_name source_func where p: "p = (source_name, source_func)"
    by (cases p)
  show ?case
    by (simp add: p Cons.IH append_retained_filter split: prod.split sum.split)
qed

lemma run_sources_append:
  "run_sources (before @ rest) c =
     (case run_sources before c of
        (Inl e, c') \<Rightarrow> (Inl e, c')
      | (Inr produced, c') \<Rightarrow>
          (case run_sources rest c' of
             (Inl e, c'') \<Rightarrow> (Inl e, c'')
           | (Inr later, c'') \<Rightarrow> (Inr (produced @ later), c'')))"
proof (induction before arbitrary: c)
  case Nil
  show ?case by (simp split: prod.split sum.split)
next
  case (Cons p before)
  obtain source_name source_func where p: "p = (source_name, source_func)"
    by (cases p)
  show ?case
    by (simp add: p Cons.IH split: prod.split sum.split)
qed

lemma get_latest_messages_closed:
  "get_latest_messages hours_back categories (self, c) =
     (case now_minus (timedelta_hours hours_back) c of
        (Inl e, c1) \<Rightarrow> (Inl e, self, c1)
      | (Inr cutoff_time, c1) \<Rightarrow>
          (case run_sources (data_sources self) c1 of
             (Inl e, c2) \<Rightarrow> (Inl e, self, c2)
           | (Inr produced, c2) \<Rightarrow>
               (Inr (sort_reverse timestamp (filter (retained cutoff_time categories) produced)),
                self, c2)))"
  by (simp add: get_latest_messages_def collect_messages_run_sources
      split: prod.split sum.split)

subsection \<open>The cutoff\<close>

lemma now_minus_hours:
  "now_minus (timedelta_hours h) c = (Inr cutoff_time, c1) \<Longrightarrow>
     cutoff_time = c 0 - h * us_per_hour \<and> c1 = (\<lambda>n. c (Suc n)) \<and> valid_datetime cutoff_time"
  by (auto simp: now_minus_def datetime_now_def timedelta_hours_def timedelta_us_def
      datetime_sub_def split: if_splits sum.splits)

lemma now_minus_hours_cases:
  assumes "valid_datetime (c 0)"
  shows "now_minus (timedelta_hours h) c =
    (if valid_datetime (c 0 - h * us_per_hour) then Inr (c 0 - h * us_per_hour)
     else Inl OverflowError, \<lambda>n. c (Suc n))"
  using assms
  by (auto simp: now_minus_def datetime_now_def datetime_sub_def timedelta_hours_def
      timedelta_us_def valid_datetime_def datetime_limit_def us_per_day_def us_per_hour_def)

lemma now_minus_clock: "snd (now_minus td c) = (\<lambda>n. c (Suc n))"
  by (simp add: now_minus_def datetime_now_def)

lemma get_latest_messages_returns:
  assumes "get_latest_messages hours_back categories (self, c) = (Inr result, s')"
  obtains produced c2 where
    "run_sources (data_sources self) (\<lambda>n. c (Suc n)) = (Inr produced, c2)"
    "result = sort_reverse timestamp
       (filter (retained (c 0 - hours_back * us_per_hour) categories) produced)"
    "s' = (self, c2)"
proof -
  obtain r c1 where nm: "now_minus (timedelta_hours hours_back) c = (r, c1)"
    by (cases "now_minus (timedelta_hours hours_back) c")
  from assms nm obtain cut where r: "r = Inr cut"
    by (cases r) (auto simp: get_latest_messages_closed)
  from nm r have cut: "cut = c 0 - hours_back * us_per_hour" and c1: "c1 = (\<lambda>n. c (Suc n))"
    using now_minus_hours by blast+
  obtain q c2 where rs: "run_sources (data_sources self) c1 = (q, c2)"
    by (cases "run_sources (data_sources self) c1")
  from assms nm r rs obtain produced where q: "q = Inr produced"
    by (cases q) (auto simp: get_latest_messages_closed)
  from assms nm r rs q have
    "result = sort_reverse timestamp (filter (retained cut categories) produced)" "s' = (self, c2)"
    by (auto simp: get_latest_messages_closed)
  with that cut c1 rs q show thesis by simp
qed

subsection \<open>The sort\<close>

lemma set_sort_reverse: "set (sort_reverse key xs) = set xs"
  by (simp add: sort_reverse_def)

lemma mset_sort_reverse: "mset (sort_reverse key xs) = mset xs"
  by (simp add: sort_reverse_def)

lemma sorted_sort_reverse: "sorted_wrt (\<lambda>a b. key a \<ge> key b) (sort_reverse key xs)"
proof -
  have "sorted (map key (sort_key key (rev xs)))" by simp
  then have "sorted_wrt (\<lambda>a b. key a \<le> key b) (sort_key key (rev xs))"
    by (simp add: sorted_wrt_map)
  then show ?thesis
    by (simp add: sort_reverse_def sorted_wrt_rev)
qed

text \<open>Records with equal timestamps keep the order in which they were collected.\<close>

lemma sort_reverse_stable:
  "filter (\<lambda>x. key x = k) (sort_reverse key xs) = filter (\<lambda>x. key x = k) xs"
proof -
  have "filter (\<lambda>x. key x = k) (sort_reverse key xs) =
        rev (filter (\<lambda>x. key x = k) (sort_key key (rev xs)))"
    by (simp add: sort_reverse_def rev_filter)
  also have "\<dots> = rev (filter (\<lambda>x. key x = k) (rev xs))"
    by (simp add: sort_key_stable)
  finally show ?thesis by (simp add: rev_filter)
qed

subsection \<open>The built-in producers\<close>

lemma timestamp_builtin [simp]:
  "timestamp (technology_message t) = t" "timestamp (business_message t) = t"
  "timestamp (product_message t) = t" "timestamp (finance_message t) = t"
  "timestamp (feedback_message t) = t"
  by (simp_all add: technology_message_def business_message_def product_message_def
      finance_message_def feedback_message_def)

lemma category_builtin [simp]:
  "category (technology_message t) = ''technology''" "category (business_message t) = ''business''"
  "category (product_message t) = ''product''" "category (finance_message t) = ''finance''"
  "category (feedback_message t) = ''feedback''"
  by (simp_all add: technology_message_def business_message_def product_message_def
      finance_message_def feedback_message_def)

lemma timedelta_hours_small:
  "- 100000000 \<le> h \<Longrightarrow> h \<le> 100000000 \<Longrightarrow> timedelta_hours h = Inr (h * us_per_hour)"
  by (simp add: timedelta_hours_def timedelta_us_def us_per_hour_def us_per_day_def)

lemma timedelta_minutes_30: "timedelta_minutes 30 = Inr (30 * us_per_minute)"
  by (simp add: timedelta_minutes_def timedelta_us_def us_per_minute_def us_per_day_def)

lemma now_minus_hours_in_range:
  assumes "- 100000000 \<le> h" "h \<le> 100000000" and "valid_datetime (c 0 - h * us_per_hour)"
  shows "now_minus (timedelta_hours h) c = (Inr (c 0 - h * us_per_hour), \<lambda>n. c (Suc n))"
  using assms by (simp add: timedelta_hours_small now_minus_def datetime_now_def datetime_sub_def)

lemma get_latest_news_in_range:
  assumes "valid_datetime (c 0 - 2 * us_per_hour)" and "valid_datetime (c 1 - 1 * us_per_hour)"
  shows "get_latest_news c =
    (Inr [technology_message (c 0 - 2 * us_per_hour), business_message (c 1 - 1 * us_per_hour)],
     \<lambda>n. c (Suc (Suc n)))"
  using assms by (simp add: get_latest_news_def now_minus_hours_in_range)

lemma get_company_updates_in_range:
  assumes "valid_datetime (c 0 - 3 * us_per_hour)"
  shows "get_company_updates c = (Inr [product_message (c 0 - 3 * us_per_hour)], \<lambda>n. c (Suc n))"
  using assms by (simp add: get_company_updates_def now_minus_hours_in_range)

lemma get_market_data_in_range:
  assumes "valid_datetime (c 0 - 30 * us_per_minute)"
  shows "get_market_data c = (Inr [finance_message (c 0 - 30 * us_per_minute)], \<lambda>n. c (Suc n))"
  using assms
  by (simp add: get_market_data_def timedelta_minutes_30 now_minus_def datetime_now_def
      datetime_sub_def)

lemma get_user_messages_in_range:
  assumes "valid_datetime (c 0 - 4 * us_per_hour)"
  shows "get_user_messages c = (Inr [feedback_message (c 0 - 4 * us_per_hour)], \<lambda>n. c (Suc n))"
  using assms by (simp add: get_user_messages_def now_minus_hours_in_range)

lemma run_builtin_sources:
  assumes "valid_datetime (c 0 - 2 * us_per_hour)" and "valid_datetime (c 1 - 1 * us_per_hour)"
      and "valid_datetime (c 2 - 3 * us_per_hour)" and "valid_datetime (c 3 - 30 * us_per_minute)"
      and "valid_datetime (c 4 - 4 * us_per_hour)"
  shows "run_sources (data_sources MessageRetriever_init) c =
    (Inr [technology_message (c 0 - 2 * us_per_hour), business_message (c 1 - 1 * us_per_hour),
          product_message (c 2 - 3 * us_per_hour), finance_message (c 3 - 30 * us_per_minute),
          feedback_message (c 4 - 4 * us_per_hour)],
     \<lambda>n. c (n + 5))"
  using assms
  by (simp add: MessageRetriever_init_def get_latest_news_in_range get_company_updates_in_range
      get_market_data_in_range get_user_messages_in_range numeral_eq_Suc)

lemma builtin_call:
  assumes "valid_datetime (c 0)" and "valid_datetime (c 0 - hours_back * us_per_hour)"
      and "4 * us_per_hour \<le> c 0"
      and "c 0 \<le> c 1" "c 1 \<le> c 2" "c 2 \<le> c 3" "c 3 \<le> c 4" "c 4 \<le> c 5"
      and "c 5 < datetime_limit + 30 * us_per_minute"
  shows "get_latest_messages hours_back categories (MessageRetriever_init, c) =
    (Inr (sort_reverse timestamp (filter (retained (c 0 - hours_back * us_per_hour) categories)
       [technology_message (c 1 - 2 * us_per_hour), business_message (c 2 - 1 * us_per_hour),
        product_message (c 3 - 3 * us_per_hour), finance_message (c 4 - 30 * us_per_minute),
        feedback_message (c 5 - 4 * us_per_hour)])),
     MessageRetriever_init, \<lambda>n. c (n + 6))"
proof -
  let ?c1 = "\<lambda>n. c (Suc n)"
  have run: "run_sources (data_sources MessageRetriever_init) ?c1 =
    (Inr [technology_message (c 1 - 2 * us_per_hour), business_message (c 2 - 1 * us_per_hour),
          product_message (c 3 - 3 * us_per_hour), finance_message (c 4 - 30 * us_per_minute),
          feedback_message (c 5 - 4 * us_per_hour)],
     \<lambda>n. c (n + 6))"
    using assms(3-)
    by (subst run_builtin_sources)
      (simp_all add: valid_datetime_def us_per_hour_def us_per_minute_def numeral_eq_Suc)
  show ?thesis
    using assms(1,2) by (simp add: get_latest_messages_closed now_minus_hours_cases run)
qed

lemma only_reads_clock_builtin:
  "only_reads_clock get_latest_news" "only_reads_clock get_company_updates"
  "only_reads_clock get_market_data" "only_reads_clock get_user_messages"
proof -
  have one: "\<exists>k. (\<lambda>n. c (Suc n)) = (\<lambda>n. c (n + k))" for c :: clock
    by (rule exI [of _ 1]) simp
  have two: "\<exists>k. (\<lambda>n. c (Suc (Suc n))) = (\<lambda>n. c (n + k))" for c :: clock
    by (rule exI [of _ 2]) simp
  show "only_reads_clock get_latest_news"
    unfolding only_reads_clock_def get_latest_news_def
    by (auto simp: one two now_minus_clock split: prod.split sum.split
        dest!: arg_cong [where f = snd])
  show "only_reads_clock get_company_updates"
    unfolding only_reads_clock_def get_company_updates_def
    by (auto simp: one now_minus_clock split: prod.split sum.split dest!: arg_cong [where f = snd])
  show "only_reads_clock get_market_data"
    unfolding only_reads_clock_def get_market_data_def
    by (auto simp: one now_minus_clock split: prod.split sum.split dest!: arg_cong [where f = snd])
  show "only_reads_clock get_user_messages"
    unfolding only_reads_clock_def get_user_messages_def
    by (auto simp: one now_minus_clock split: prod.split sum.split dest!: arg_cong [where f = snd])
qed

subsection \<open>A clock that stands still\<close>

lemma frozen_frozen_clock: "frozen (frozen_clock t)"
  by (simp add: frozen_def frozen_clock_def)

lemma frozen_tail:
  assumes "frozen c"
  shows "(\<lambda>n. c (n + k)) = c"
proof
  fix n
  from assms have "c (n + k) = c 0" and "c n = c 0"
    unfolding frozen_def by blast+
  then show "c (n + k) = c n" by simp
qed

lemma frozen_producer:
  assumes "frozen c" and "only_reads_clock p"
  shows "snd (p c) = c"
proof -
  from assms(2) obtain k where "snd (p c) = (\<lambda>n. c (n + k))"
    unfolding only_reads_clock_def by blast
  with assms(1) show ?thesis by (simp add: frozen_tail)
qed

lemma frozen_run_sources:
  assumes "frozen c" and "\<forall>(source_name, source_func) \<in> set reg. only_reads_clock source_func"
  shows "snd (run_sources reg c) = c"
  using assms(2)
proof (induction reg)
  case Nil
  show ?case by simp
next
  case (Cons p reg)
  obtain source_name source_func where p: "p = (source_name, source_func)"
    by (cases p)
  from Cons.prems p have "only_reads_clock source_func" by simp
  with assms(1) have 1: "snd (source_func c) = c" by (rule frozen_producer)
  from Cons have 2: "snd (run_sources reg c) = c" by simp
  show ?case
    using 1 2 by (auto simp: p split: prod.split sum.split)
qed

subsection \<open>The built-in registry on the concrete clocks\<close>

lemma ticking_clock_simps [simp]:
  "ticking_clock t step 0 = t" "ticking_clock t step (Suc n) = ticking_clock t step n + step"
  "ticking_clock t step (numeral k) = t + numeral k * step"
  by (simp_all add: ticking_clock_def algebra_simps)

lemma frozen_call:
  assumes "- 30000 \<le> hours_back" and "hours_back \<le> 30000"
  shows "get_latest_messages hours_back categories (MessageRetriever_init, frozen_clock new_year_2024) =
    (Inr (sort_reverse timestamp
       (filter (retained (new_year_2024 - hours_back * us_per_hour) categories)
         [technology_message (new_year_2024 - 2 * us_per_hour),
          business_message (new_year_2024 - 1 * us_per_hour),
          product_message (new_year_2024 - 3 * us_per_hour),
          finance_message (new_year_2024 - 30 * us_per_minute),
          feedback_message (new_year_2024 - 4 * us_per_hour)])),
     MessageRetriever_init, frozen_clock new_year_2024)"
  using assms
  by (subst builtin_call)
    (simp_all add: valid_datetime_def new_year_2024_def datetime_limit_def us_per_day_def
      us_per_hour_def us_per_minute_def frozen_clock_def)

lemma ticking_call:
  assumes "- 30000 \<le> hours_back" and "hours_back \<le> 30000"
  shows "get_latest_messages hours_back categories
      (MessageRetriever_init, ticking_clock new_year_2024 1000) =
    (Inr (sort_reverse timestamp
       (filter (retained (new_year_2024 - hours_back * us_per_hour) categories)
         [technology_message (new_year_2024 + 1000 - 2 * us_per_hour),
          business_message (new_year_2024 + 2000 - 1 * us_per_hour),
          product_message (new_year_2024 + 3000 - 3 * us_per_hour),
          finance_message (new_year_2024 + 4000 - 30 * us_per_minute),
          feedback_message (new_year_2024 + 5000 - 4 * us_per_hour)])),
     MessageRetriever_init, \<lambda>n. ticking_clock new_year_2024 1000 (n + 6))"
  using assms
  by (subst builtin_call)
    (simp_all add: valid_datetime_def new_year_2024_def datetime_limit_def us_per_day_def
      us_per_hour_def us_per_minute_def)

lemma stepping_call:
  assumes "- 30000 \<le> hours_back" and "hours_back \<le> 30000"
      and "0 \<le> d" and "d \<le> 2 * us_per_hour"
  shows "get_latest_messages hours_back categories
      (MessageRetriever_init, stepping_clock new_year_2024 k d) =
    (Inr (sort_reverse timestamp
       (filter (retained (stepping_clock new_year_2024 k d 0 - hours_back * us_per_hour) categories)
         [technology_message (stepping_clock new_year_2024 k d 1 - 2 * us_per_hour),
          business_message (stepping_clock new_year_2024 k d 2 - 1 * us_per_hour),
          product_message (stepping_clock new_year_2024 k d 3 - 3 * us_per_hour),
          finance_message (stepping_clock new_year_2024 k d 4 - 30 * us_per_minute),
          feedback_message (stepping_clock new_year_2024 k d 5 - 4 * us_per_hour)])),
     MessageRetriever_init, \<lambda>n. stepping_clock new_year_2024 k d (n + 6))"
  using assms
  by (intro builtin_call)
    (simp_all add: stepping_clock_def valid_datetime_def new_year_2024_def datetime_limit_def
      us_per_day_def us_per_hour_def us_per_minute_def)

section \<open>Properties of \<^verbatim>\<open>get_latest_messages\<close>\<close>

text \<open>
  In what follows \<open>c 0\<close> is the reading of the clock with which the call computes its
  cutoff, so \<open>c 0 - hours_back * us_per_hour\<close> is "now minus \<^verbatim>\<open>hours_back\<close>"; the
  producers read the clock after it.
\<close>

text \<open>
  C1. Whenever a call returns a list, every record in it has a timestamp at or after the
  cutoff, and the cutoff is the one value computed from the first clock reading of the
  call, before any producer runs. The comparison is inclusive: a record that a producer
  yields with a timestamp equal to the cutoff (and that passes the category filter) is
  in the list.
\<close>

theorem cutoff_inclusive:
  assumes "get_latest_messages hours_back categories (self, c) = (Inr result, s')"
  shows "(\<forall>m \<in> set result. timestamp m \<ge> c 0 - hours_back * us_per_hour) \<and>
         (\<forall>produced c2 m.
            run_sources (data_sources self) (\<lambda>n. c (Suc n)) = (Inr produced, c2) \<longrightarrow>
            m \<in> set produced \<longrightarrow>
            timestamp m = c 0 - hours_back * us_per_hour \<longrightarrow>
            (case categories of None \<Rightarrow> True | Some cs \<Rightarrow> category m \<in> set cs) \<longrightarrow>
            m \<in> set result)"
proof -
  from assms obtain produced c2 where
    rs: "run_sources (data_sources self) (\<lambda>n. c (Suc n)) = (Inr produced, c2)" and
    res: "result = sort_reverse timestamp
       (filter (retained (c 0 - hours_back * us_per_hour) categories) produced)"
    by (rule get_latest_messages_returns)
  from res have
    "set result = {m \<in> set produced. retained (c 0 - hours_back * us_per_hour) categories m}"
    by (simp add: set_sort_reverse)
  with rs show ?thesis
    by (simp add: retained_def)
qed

theorem cutoff_inclusive_witness:
  "get_latest_messages 2 None (MessageRetriever_init, frozen_clock new_year_2024) =
     (Inr [finance_message (new_year_2024 - 30 * us_per_minute),
           business_message (new_year_2024 - 1 * us_per_hour),
           technology_message (new_year_2024 - 2 * us_per_hour)],
      MessageRetriever_init, frozen_clock new_year_2024) \<and>
   list_all (\<lambda>m. timestamp m \<ge> new_year_2024 - 2 * us_per_hour)
     [finance_message (new_year_2024 - 30 * us_per_minute),
      business_message (new_year_2024 - 1 * us_per_hour),
      technology_message (new_year_2024 - 2 * us_per_hour)]"
proof -
  have call: "get_latest_messages 2 None (MessageRetriever_init, frozen_clock new_year_2024) =
     (Inr [finance_message (new_year_2024 - 30 * us_per_minute),
           business_message (new_year_2024 - 1 * us_per_hour),
           technology_message (new_year_2024 - 2 * us_per_hour)],
      MessageRetriever_init, frozen_clock new_year_2024)"
    by (simp add: frozen_call retained_def sort_reverse_def us_per_hour_def us_per_minute_def)
  from cutoff_inclusive [OF call]
  have "\<forall>m \<in> set [finance_message (new_year_2024 - 30 * us_per_minute),
           business_message (new_year_2024 - 1 * us_per_hour),
           technology_message (new_year_2024 - 2 * us_per_hour)].
          timestamp m \<ge> frozen_clock new_year_2024 0 - 2 * us_per_hour"
    by (rule conjunct1)
  with call show ?thesis
    by (simp add: list_all_iff frozen_clock_def)
qed

text \<open>
  C2. Whenever a call returns a list, the list is sorted by timestamp, newest first: no
  record is followed by a newer one, and in particular each record is at least as recent
  as its successor.
\<close>

theorem newest_first:
  assumes "get_latest_messages hours_back categories (self, c) = (Inr result, s')"
  shows "sorted_wrt (\<lambda>a b. timestamp a \<ge> timestamp b) result \<and>
         (\<forall>i. Suc i < length result \<longrightarrow> timestamp (result ! i) \<ge> timestamp (result ! Suc i))"
proof -
  from assms obtain produced where
    "result = sort_reverse timestamp
       (filter (retained (c 0 - hours_back * us_per_hour) categories) produced)"
    by (rule get_latest_messages_returns)
  then have s: "sorted_wrt (\<lambda>a b. timestamp a \<ge> timestamp b) result"
    by (simp add: sorted_sort_reverse)
  then have "\<forall>i. Suc i < length result \<longrightarrow> timestamp (result ! i) \<ge> timestamp (result ! Suc i)"
    by (simp add: sorted_wrt_iff_nth_less)
  with s show ?thesis by simp
qed

theorem newest_first_witness:
  "fst (get_latest_messages 24 None (MessageRetriever_init, ticking_clock new_year_2024 1000)) =
     Inr [finance_message (new_year_2024 + 4000 - 30 * us_per_minute),
          business_message (new_year_2024 + 2000 - 1 * us_per_hour),
          technology_message (new_year_2024 + 1000 - 2 * us_per_hour),
          product_message (new_year_2024 + 3000 - 3 * us_per_hour),
          feedback_message (new_year_2024 + 5000 - 4 * us_per_hour)] \<and>
   sorted_wrt (\<lambda>a b. timestamp a \<ge> timestamp b)
     [finance_message (new_year_2024 + 4000 - 30 * us_per_minute),
      business_message (new_year_2024 + 2000 - 1 * us_per_hour),
      technology_message (new_year_2024 + 1000 - 2 * us_per_hour),
      product_message (new_year_2024 + 3000 - 3 * us_per_hour),
      feedback_message (new_year_2024 + 5000 - 4 * us_per_hour)]"
proof -
  have call: "get_latest_messages 24 None
      (MessageRetriever_init, ticking_clock new_year_2024 1000) =
     (Inr [finance_message (new_year_2024 + 4000 - 30 * us_per_minute),
           business_message (new_year_2024 + 2000 - 1 * us_per_hour),
           technology_message (new_year_2024 + 1000 - 2 * us_per_hour),
           product_message (new_year_2024 + 3000 - 3 * us_per_hour),
           feedback_message (new_year_2024 + 5000 - 4 * us_per_hour)],
      MessageRetriever_init, \<lambda>n. ticking_clock new_year_2024 1000 (n + 6))"
    by (simp add: ticking_call retained_def sort_reverse_def us_per_hour_def us_per_minute_def)
  from newest_first [OF call]
  have "sorted_wrt (\<lambda>a b. timestamp a \<ge> timestamp b)
     [finance_message (new_year_2024 + 4000 - 30 * us_per_minute),
      business_message (new_year_2024 + 2000 - 1 * us_per_hour),
      technology_message (new_year_2024 + 1000 - 2 * us_per_hour),
      product_message (new_year_2024 + 3000 - 3 * us_per_hour),
      feedback_message (new_year_2024 + 5000 - 4 * us_per_hour)]"
    by (rule conjunct1)
  with call show ?thesis
    by (simp del: sorted_wrt.simps)
qed

text \<open>
  C3. Whenever a call returns a list, a record that a producer yielded during the call is
  in the list if and only if its timestamp is at or after the cutoff and either
  \<^verbatim>\<open>categories\<close> is \<^verbatim>\<open>None\<close> or its category is one of \<^verbatim>\<open>categories\<close>. With
  \<^verbatim>\<open>categories=None\<close> the list holds exactly the records inside the time window, each as
  often as it was yielded; with a list of categories, every record returned has one of
  them.
\<close>

theorem retained_iff:
  assumes "get_latest_messages hours_back categories (self, c) = (Inr result, s')"
      and "run_sources (data_sources self) (\<lambda>n. c (Suc n)) = (Inr produced, c2)"
  shows "(\<forall>m. m \<in> set result \<longleftrightarrow>
            m \<in> set produced \<and> timestamp m \<ge> c 0 - hours_back * us_per_hour \<and>
            (case categories of None \<Rightarrow> True | Some cs \<Rightarrow> category m \<in> set cs)) \<and>
         (categories = None \<longrightarrow>
            mset result =
              mset (filter (\<lambda>m. timestamp m \<ge> c 0 - hours_back * us_per_hour) produced)) \<and>
         (\<forall>cs. categories = Some cs \<longrightarrow> (\<forall>m \<in> set result. category m \<in> set cs))"
proof -
  from assms(1) obtain produced' c2' where
    rs: "run_sources (data_sources self) (\<lambda>n. c (Suc n)) = (Inr produced', c2')" and
    res: "result = sort_reverse timestamp
       (filter (retained (c 0 - hours_back * us_per_hour) categories) produced')"
    by (rule get_latest_messages_returns)
  from rs assms(2) have "produced' = produced" by simp
  with res have res': "result = sort_reverse timestamp
       (filter (retained (c 0 - hours_back * us_per_hour) categories) produced)"
    by simp
  have 1: "\<forall>m. m \<in> set result \<longleftrightarrow>
            m \<in> set produced \<and> timestamp m \<ge> c 0 - hours_back * us_per_hour \<and>
            (case categories of None \<Rightarrow> True | Some cs \<Rightarrow> category m \<in> set cs)"
    by (simp add: res' set_sort_reverse retained_def)
  have 2: "categories = None \<longrightarrow>
            mset result =
              mset (filter (\<lambda>m. timestamp m \<ge> c 0 - hours_back * us_per_hour) produced)"
    by (simp add: res' mset_sort_reverse retained_def)
  have 3: "\<forall>cs. categories = Some cs \<longrightarrow> (\<forall>m \<in> set result. category m \<in> set cs)"
    using 1 by auto
  from 1 2 3 show ?thesis by blast
qed

theorem retained_iff_witness:
  "fst (get_latest_messages 24 (Some [''technology'', ''finance''])
          (MessageRetriever_init, ticking_clock new_year_2024 1000)) =
     Inr [finance_message (new_year_2024 + 4000 - 30 * us_per_minute),
          technology_message (new_year_2024 + 1000 - 2 * us_per_hour)] \<and>
   list_all (\<lambda>m. category m \<in> set [''technology'', ''finance''])
     [finance_message (new_year_2024 + 4000 - 30 * us_per_minute),
      technology_message (new_year_2024 + 1000 - 2 * us_per_hour)]"
proof -
  let ?c = "ticking_clock new_year_2024 1000"
  have call: "get_latest_messages 24 (Some [''technology'', ''finance''])
      (MessageRetriever_init, ?c) =
     (Inr [finance_message (new_year_2024 + 4000 - 30 * us_per_minute),
           technology_message (new_year_2024 + 1000 - 2 * us_per_hour)],
      MessageRetriever_init, \<lambda>n. ?c (n + 6))"
    by (simp add: ticking_call retained_def sort_reverse_def us_per_hour_def us_per_minute_def)
  have run: "run_sources (data_sources MessageRetriever_init) (\<lambda>n. ?c (Suc n)) =
     (Inr [technology_message (?c 1 - 2 * us_per_hour), business_message (?c 2 - 1 * us_per_hour),
          product_message (?c 3 - 3 * us_per_hour), finance_message (?c 4 - 30 * us_per_minute),
          feedback_message (?c 5 - 4 * us_per_hour)],
      \<lambda>n. ?c (Suc (n + 5)))"
    by (subst run_builtin_sources)
      (simp_all add: valid_datetime_def new_year_2024_def datetime_limit_def us_per_day_def
        us_per_hour_def us_per_minute_def)
  from retained_iff [OF call run]
  have "\<forall>m \<in> set [finance_message (new_year_2024 + 4000 - 30 * us_per_minute),
           technology_message (new_year_2024 + 1000 - 2 * us_per_hour)].
          category m \<in> set [''technology'', ''finance'']"
    by blast
  with call show ?thesis
    by (simp add: list_all_iff)
qed

text \<open>
  C4. The specification asks that \<^verbatim>\<open>hours_back <= 0\<close> be refused with an
  \<^verbatim>\<open>InvalidArgument\<close> error. The method has no such check: for \<^verbatim>\<open>hours_back <= 0\<close> it
  raises no argument error. Provided the cutoff "now minus \<^verbatim>\<open>hours_back\<close>" is still a
  representable \<^verbatim>\<open>datetime\<close> and no producer raises, the call returns a list: the
  records the producers yielded that are at or after the cutoff and pass the category
  filter, newest first.
\<close>

theorem nonpositive_hours_not_rejected:
  assumes "hours_back \<le> 0"
      and "valid_datetime (c 0)"
      and "c 0 - hours_back * us_per_hour < datetime_limit"
      and "run_sources (data_sources self) (\<lambda>n. c (Suc n)) = (Inr produced, c2)"
  shows "get_latest_messages hours_back categories (self, c) =
    (Inr (sort_reverse timestamp
            (filter (retained (c 0 - hours_back * us_per_hour) categories) produced)),
     self, c2)"
proof -
  from assms(1) have "c 0 \<le> c 0 - hours_back * us_per_hour"
    by (simp add: us_per_hour_def)
  with assms(2,3) have "valid_datetime (c 0 - hours_back * us_per_hour)"
    by (simp add: valid_datetime_def)
  with assms(2,4) show ?thesis
    by (simp add: get_latest_messages_closed now_minus_hours_cases)
qed

theorem nonpositive_hours_not_rejected_witness:
  "get_latest_messages (- 3) None
     (\<lparr>data_sources = [(''calendar'', fixed_source [scheduled_record new_year_2024])]\<rparr>,
      frozen_clock new_year_2024) =
   (Inr [scheduled_record new_year_2024],
    \<lparr>data_sources = [(''calendar'', fixed_source [scheduled_record new_year_2024])]\<rparr>,
    frozen_clock new_year_2024)"
proof -
  let ?self = "\<lparr>data_sources = [(''calendar'', fixed_source [scheduled_record new_year_2024])]\<rparr>"
  let ?c = "frozen_clock new_year_2024"
  have 1: "(- 3 :: int) \<le> 0" by simp
  have 2: "valid_datetime (?c 0)"
    by (simp add: frozen_clock_def valid_datetime_def new_year_2024_def datetime_limit_def
        us_per_day_def)
  have 3: "?c 0 - (- 3) * us_per_hour < datetime_limit"
    by (simp add: frozen_clock_def new_year_2024_def datetime_limit_def us_per_day_def
        us_per_hour_def)
  have 4: "run_sources (data_sources ?self) (\<lambda>n. ?c (Suc n)) =
      (Inr [scheduled_record new_year_2024], ?c)"
    by (simp add: fixed_source_def frozen_clock_def)
  from nonpositive_hours_not_rejected [OF 1 2 3 4, of None] show ?thesis
    by (simp add: retained_def sort_reverse_def scheduled_record_def frozen_clock_def
        us_per_hour_def)
qed

text \<open>
  Refusal does not happen: with \<^verbatim>\<open>hours_back=0\<close> and with \<^verbatim>\<open>hours_back=-1\<close> the
  built-in retriever returns a result, the empty list, instead of raising.
\<close>

theorem nonpositive_hours_counterexample:
  "fst (get_latest_messages 0 None (MessageRetriever_init, ticking_clock new_year_2024 1000)) =
     Inr [] \<and>
   fst (get_latest_messages (- 1) None (MessageRetriever_init, ticking_clock new_year_2024 1000)) =
     Inr []"
  by (simp add: ticking_call retained_def sort_reverse_def us_per_hour_def us_per_minute_def)

text \<open>
  C5. Two sources, A with one record timestamped two hours before now in category
  "technology" and B with one record timestamped thirty hours before now in category
  "finance", registered in either order: with \<^verbatim>\<open>hours_back=24\<close> the call returns exactly
  the technology record; with \<^verbatim>\<open>hours_back=48\<close> it returns both, the technology record
  first. (Now is any instant at least 48 hours after \<^verbatim>\<open>datetime.min\<close>.)
\<close>

theorem two_source_scenario:
  assumes "valid_datetime (c 0)" and "48 * us_per_hour \<le> c 0"
      and "timestamp a = c 0 - 2 * us_per_hour" and "category a = ''technology''"
      and "timestamp b = c 0 - 30 * us_per_hour" and "category b = ''finance''"
      and "data_sources self = [(name_a, fixed_source [a]), (name_b, fixed_source [b])] \<or>
           data_sources self = [(name_b, fixed_source [b]), (name_a, fixed_source [a])]"
  shows "fst (get_latest_messages 24 None (self, c)) = Inr [a] \<and>
         fst (get_latest_messages 48 None (self, c)) = Inr [a, b]"
proof -
  from assms(1,2) have v24: "valid_datetime (c 0 - 24 * us_per_hour)"
    and v48: "valid_datetime (c 0 - 48 * us_per_hour)"
    by (simp_all add: valid_datetime_def us_per_hour_def)
  from assms(7) show ?thesis
  proof
    assume "data_sources self = [(name_a, fixed_source [a]), (name_b, fixed_source [b])]"
    then show ?thesis
      using assms(1,3,5) v24 v48
      by (simp add: get_latest_messages_closed now_minus_hours_cases fixed_source_def
          retained_def sort_reverse_def us_per_hour_def)
  next
    assume "data_sources self = [(name_b, fixed_source [b]), (name_a, fixed_source [a])]"
    then show ?thesis
      using assms(1,3,5) v24 v48
      by (simp add: get_latest_messages_closed now_minus_hours_cases fixed_source_def
          retained_def sort_reverse_def us_per_hour_def)
  qed
qed

theorem two_source_scenario_witness:
  "fst (get_latest_messages 24 None
     (\<lparr>data_sources = [(''A'', fixed_source [record_a new_year_2024]),
                       (''B'', fixed_source [record_b new_year_2024])]\<rparr>,
      frozen_clock new_year_2024)) = Inr [record_a new_year_2024] \<and>
   fst (get_latest_messages 48 None
     (\<lparr>data_sources = [(''A'', fixed_source [record_a new_year_2024]),
                       (''B'', fixed_source [record_b new_year_2024])]\<rparr>,
      frozen_clock new_year_2024)) = Inr [record_a new_year_2024, record_b new_year_2024]"
proof -
  let ?self = "\<lparr>data_sources = [(''A'', fixed_source [record_a new_year_2024]),
                       (''B'', fixed_source [record_b new_year_2024])]\<rparr>"
  let ?c = "frozen_clock new_year_2024"
  have 1: "valid_datetime (?c 0)"
    by (simp add: frozen_clock_def valid_datetime_def new_year_2024_def datetime_limit_def
        us_per_day_def)
  have 2: "48 * us_per_hour \<le> ?c 0"
    by (simp add: frozen_clock_def new_year_2024_def us_per_day_def us_per_hour_def)
  have 3: "timestamp (record_a new_year_2024) = ?c 0 - 2 * us_per_hour"
    by (simp add: record_a_def frozen_clock_def)
  have 4: "category (record_a new_year_2024) = ''technology''"
    by (simp add: record_a_def)
  have 5: "timestamp (record_b new_year_2024) = ?c 0 - 30 * us_per_hour"
    by (simp add: record_b_def frozen_clock_def)
  have 6: "category (record_b new_year_2024) = ''finance''"
    by (simp add: record_b_def)
  have 7: "data_sources ?self = [(''A'', fixed_source [record_a new_year_2024]),
                                 (''B'', fixed_source [record_b new_year_2024])] \<or>
           data_sources ?self = [(''B'', fixed_source [record_b new_year_2024]),
                                 (''A'', fixed_source [record_a new_year_2024])]"
    by simp
  from two_source_scenario [where c = ?c and self = ?self and a = "record_a new_year_2024"
      and b = "record_b new_year_2024" and name_a = "''A''" and name_b = "''B''",
      OF 1 2 3 4 5 6 7]
  show ?thesis .
qed

text \<open>
  C6. On a clock that stands still (no time elapses) and with producers that do nothing
  but read the clock, a second call made with the same arguments in the state the first
  call left returns the same result as the first: the same records in the same order, or
  the same exception. (A producer is a function of the clock, hence deterministic.)
\<close>

theorem repeated_call_same_result:
  assumes "frozen c"
      and "\<forall>(source_name, source_func) \<in> set (data_sources self). only_reads_clock source_func"
      and "get_latest_messages hours_back categories (self, c) = (r1, s1)"
      and "get_latest_messages hours_back categories s1 = (r2, s2)"
  shows "r2 = r1"
proof -
  from assms(1) have c1: "(\<lambda>n. c (Suc n)) = c"
    using frozen_tail [of c 1] by simp
  have nm: "snd (now_minus (timedelta_hours hours_back) c) = c"
    by (simp add: now_minus_clock c1)
  from assms(1,2) have rs: "snd (run_sources (data_sources self) c) = c"
    by (rule frozen_run_sources)
  have "snd (get_latest_messages hours_back categories (self, c)) = (self, c)"
    using nm rs
    by (auto simp: get_latest_messages_closed split: prod.split sum.split)
  with assms(3) have "s1 = (self, c)" by simp
  with assms(3,4) show ?thesis by simp
qed

theorem repeated_call_same_result_witness:
  "fst (get_latest_messages 24 None
          (snd (get_latest_messages 24 None (MessageRetriever_init, frozen_clock new_year_2024)))) =
   fst (get_latest_messages 24 None (MessageRetriever_init, frozen_clock new_year_2024))"
proof -
  have 1: "frozen (frozen_clock new_year_2024)"
    by (rule frozen_frozen_clock)
  have 2: "\<forall>(source_name, source_func) \<in> set (data_sources MessageRetriever_init).
      only_reads_clock source_func"
    by (simp add: MessageRetriever_init_def only_reads_clock_builtin)
  from repeated_call_same_result [OF 1 2 surjective_pairing surjective_pairing]
  show ?thesis .
qed

text \<open>
  C7. A producer that raises aborts the call. If the cutoff was computed, the producers
  registered before the failing one returned, and the failing one raises \<open>e\<close>, then the
  call ends with \<open>e\<close>: no list is returned, the records collected so far are dropped, and
  the producers registered after it are not invoked (the clock is as the failing producer
  left it).
\<close>

theorem producer_failure_aborts:
  assumes "now_minus (timedelta_hours hours_back) c = (Inr cutoff_time, c1)"
      and "data_sources self = before @ (source_name, source_func) # rest"
      and "run_sources before c1 = (Inr produced, c2)"
      and "source_func c2 = (Inl e, c3)"
  shows "get_latest_messages hours_back categories (self, c) = (Inl e, self, c3)"
  using assms by (simp add: get_latest_messages_closed run_sources_append)

theorem producer_failure_aborts_witness:
  "get_latest_messages 24 None
     (\<lparr>data_sources = [(''news'', get_latest_news), (''broken'', failing_source ''boom''),
                       (''market_data'', get_market_data)]\<rparr>,
      frozen_clock new_year_2024) =
   (Inl (Raised ''boom''),
    \<lparr>data_sources = [(''news'', get_latest_news), (''broken'', failing_source ''boom''),
                      (''market_data'', get_market_data)]\<rparr>,
    frozen_clock new_year_2024)"
proof -
  let ?self = "\<lparr>data_sources = [(''news'', get_latest_news), (''broken'', failing_source ''boom''),
                       (''market_data'', get_market_data)]\<rparr>"
  let ?c = "frozen_clock new_year_2024"
  have 1: "now_minus (timedelta_hours 24) ?c = (Inr (new_year_2024 - 24 * us_per_hour), ?c)"
    by (subst now_minus_hours_cases)
      (simp_all add: frozen_clock_def valid_datetime_def new_year_2024_def datetime_limit_def
        us_per_day_def us_per_hour_def)
  have 2: "data_sources ?self =
      [(''news'', get_latest_news)] @ (''broken'', failing_source ''boom'') #
      [(''market_data'', get_market_data)]"
    by simp
  have 3: "run_sources [(''news'', get_latest_news)] ?c =
      (Inr [technology_message (new_year_2024 - 2 * us_per_hour),
            business_message (new_year_2024 - 1 * us_per_hour)], ?c)"
    by (simp add: get_latest_news_in_range frozen_clock_def valid_datetime_def new_year_2024_def
        datetime_limit_def us_per_day_def us_per_hour_def)
  have 4: "failing_source ''boom'' ?c = (Inl (Raised ''boom''), ?c)"
    by (simp add: failing_source_def)
  from producer_failure_aborts [OF 1 2 3 4] show ?thesis .
qed

text \<open>
  C8. The call leaves the retriever object, and with it the registry, as it found it,
  whether it returns or raises: the same names bound to the same producers. Its only
  effect is on the clock, through its own reading and those of the producers.
\<close>

theorem registry_unchanged:
  "fst (snd (get_latest_messages hours_back categories (self, c))) = self \<and>
   data_sources (fst (snd (get_latest_messages hours_back categories (self, c)))) =
     data_sources self"
  by (simp add: get_latest_messages_def split: prod.split sum.split)

theorem registry_unchanged_witness:
  "data_sources (fst (snd (get_latest_messages 24 None
      (MessageRetriever_init, frozen_clock new_year_2024)))) =
   [(''news'', get_latest_news), (''company_updates'', get_company_updates),
    (''market_data'', get_market_data), (''user_messages'', get_user_messages)]"
  using registry_unchanged [of 24 None MessageRetriever_init "frozen_clock new_year_2024"]
  by (simp add: MessageRetriever_init_def)

text \<open>
  C9. The call reads the clock six times: once for the cutoff and once for each built-in
  record. Provided that the clock does not run backwards between these six readings,
  that the last of them is at most one hour after the first, that the first is at least
  a day after \<^verbatim>\<open>datetime.min\<close> and that the last is before the end of the \<^verbatim>\<open>datetime\<close>
  range, the call with the four built-in producers and the default arguments
  (\<^verbatim>\<open>hours_back=24\<close>, \<^verbatim>\<open>categories=None\<close>) returns exactly five records in this order:
  the finance record (30 minutes old), the business record (1 hour old), the technology
  record (2 hours old), the product record (3 hours old), the feedback record (4 hours
  old), each age counted from the reading its producer took for that record.
\<close>

theorem builtin_default_result:
  assumes "us_per_day \<le> c 0"
      and "c 0 \<le> c 1" "c 1 \<le> c 2" "c 2 \<le> c 3" "c 3 \<le> c 4" "c 4 \<le> c 5"
      and "c 5 \<le> c 0 + us_per_hour"
      and "c 5 < datetime_limit"
  shows "get_latest_messages_default (MessageRetriever_init, c) =
    (Inr [finance_message (c 4 - 30 * us_per_minute),
          business_message (c 2 - 1 * us_per_hour),
          technology_message (c 1 - 2 * us_per_hour),
          product_message (c 3 - 3 * us_per_hour),
          feedback_message (c 5 - 4 * us_per_hour)],
     MessageRetriever_init, \<lambda>n. c (n + 6))"
proof -
  from assms have v0: "valid_datetime (c 0)"
    and v24: "valid_datetime (c 0 - 24 * us_per_hour)"
    and h4: "4 * us_per_hour \<le> c 0"
    and c5: "c 5 < datetime_limit + 30 * us_per_minute"
    by (simp_all add: valid_datetime_def us_per_day_def us_per_hour_def us_per_minute_def)
  have "get_latest_messages 24 None (MessageRetriever_init, c) =
    (Inr (sort_reverse timestamp (filter (retained (c 0 - 24 * us_per_hour) None)
       [technology_message (c 1 - 2 * us_per_hour), business_message (c 2 - 1 * us_per_hour),
        product_message (c 3 - 3 * us_per_hour), finance_message (c 4 - 30 * us_per_minute),
        feedback_message (c 5 - 4 * us_per_hour)])),
     MessageRetriever_init, \<lambda>n. c (n + 6))"
    using v0 v24 h4 assms(2-6) c5 by (rule builtin_call)
  then show ?thesis
    using assms
    by (simp add: get_latest_messages_default_def retained_def sort_reverse_def
        us_per_hour_def us_per_minute_def us_per_day_def)
qed

theorem builtin_default_result_witness:
  "fst (get_latest_messages_default (MessageRetriever_init, ticking_clock new_year_2024 1000)) =
     Inr [finance_message (new_year_2024 + 4000 - 30 * us_per_minute),
          business_message (new_year_2024 + 2000 - 1 * us_per_hour),
          technology_message (new_year_2024 + 1000 - 2 * us_per_hour),
          product_message (new_year_2024 + 3000 - 3 * us_per_hour),
          feedback_message (new_year_2024 + 5000 - 4 * us_per_hour)]"
proof -
  let ?c = "ticking_clock new_year_2024 1000"
  have 1: "us_per_day \<le> ?c 0"
    by (simp add: new_year_2024_def us_per_day_def)
  have 2: "?c 0 \<le> ?c 1" "?c 1 \<le> ?c 2" "?c 2 \<le> ?c 3" "?c 3 \<le> ?c 4" "?c 4 \<le> ?c 5"
    by (simp_all add: ticking_clock_def)
  have 3: "?c 5 \<le> ?c 0 + us_per_hour"
    by (simp add: us_per_hour_def)
  have 4: "?c 5 < datetime_limit"
    by (simp add: new_year_2024_def datetime_limit_def us_per_day_def)
  from builtin_default_result [where c = ?c, OF 1 2 3 4] show ?thesis
    by simp
qed

text \<open>
  Without the condition on the clock the order is not fixed. When local time steps
  forward by one hour and one microsecond between the two readings of
  \<^verbatim>\<open>_get_latest_news\<close>, the product record is stamped after the technology record and
  comes before it in the result.
\<close>

theorem builtin_default_result_counterexample:
  "fst (get_latest_messages_default
          (MessageRetriever_init, stepping_clock new_year_2024 2 (us_per_hour + 1))) =
     Inr [finance_message (new_year_2024 + (us_per_hour + 1) - 30 * us_per_minute),
          business_message (new_year_2024 + (us_per_hour + 1) - 1 * us_per_hour),
          product_message (new_year_2024 + (us_per_hour + 1) - 3 * us_per_hour),
          technology_message (new_year_2024 - 2 * us_per_hour),
          feedback_message (new_year_2024 + (us_per_hour + 1) - 4 * us_per_hour)]"
  by (simp add: get_latest_messages_default_def stepping_call us_per_hour_def)
    (simp add: stepping_clock_def retained_def sort_reverse_def us_per_hour_def us_per_minute_def)

text \<open>
  C10. The method validates nothing, so \<^verbatim>\<open>hours_back <= 0\<close> is accepted with any
  \<^verbatim>\<open>categories\<close>. The call reads the clock six times: once for the cutoff and once for
  each built-in record. Provided that the clock does not run backwards between these six
  readings, that the last of them is less than 30 minutes after the first, and that the
  first is a \<^verbatim>\<open>datetime\<close> at least four hours after \<^verbatim>\<open>datetime.min\<close>, the call with the
  built-in producers and \<^verbatim>\<open>hours_back <= 0\<close> does one of two things. If the cutoff, the
  first reading minus \<^verbatim>\<open>hours_back\<close> hours, is still a representable \<^verbatim>\<open>datetime\<close> (not
  after \<^verbatim>\<open>datetime.max\<close>), it raises nothing and returns the empty list: the cutoff lies
  at or after the first reading, and every built-in record is stamped at least 30 minutes
  before its producer's reading. Otherwise the date arithmetic of the cutoff raises
  \<^verbatim>\<open>OverflowError\<close> before any producer runs.
\<close>

theorem nonpositive_hours_builtin:
  assumes "hours_back \<le> 0"
      and "4 * us_per_hour \<le> c 0"
      and "c 0 \<le> c 1" "c 1 \<le> c 2" "c 2 \<le> c 3" "c 3 \<le> c 4" "c 4 \<le> c 5"
      and "c 5 < c 0 + 30 * us_per_minute"
      and "c 0 < datetime_limit"
  shows "get_latest_messages hours_back categories (MessageRetriever_init, c) =
    (if c 0 - hours_back * us_per_hour < datetime_limit
     then (Inr [], MessageRetriever_init, \<lambda>n. c (n + 6))
     else (Inl OverflowError, MessageRetriever_init, \<lambda>n. c (Suc n)))"
proof (cases "c 0 - hours_back * us_per_hour < datetime_limit")
  case True
  from assms have v0: "valid_datetime (c 0)"
    by (simp add: valid_datetime_def us_per_hour_def)
  from assms(1) have le: "c 0 \<le> c 0 - hours_back * us_per_hour"
    by (simp add: us_per_hour_def)
  with True v0 have vc: "valid_datetime (c 0 - hours_back * us_per_hour)"
    by (simp add: valid_datetime_def)
  have c5: "c 5 < datetime_limit + 30 * us_per_minute"
    using assms by simp
  have "get_latest_messages hours_back categories (MessageRetriever_init, c) =
    (Inr (sort_reverse timestamp (filter (retained (c 0 - hours_back * us_per_hour) categories)
       [technology_message (c 1 - 2 * us_per_hour), business_message (c 2 - 1 * us_per_hour),
        product_message (c 3 - 3 * us_per_hour), finance_message (c 4 - 30 * us_per_minute),
        feedback_message (c 5 - 4 * us_per_hour)])),
     MessageRetriever_init, \<lambda>n. c (n + 6))"
    using v0 vc assms(2-7) c5 by (rule builtin_call)
  moreover have "filter (retained (c 0 - hours_back * us_per_hour) categories)
       [technology_message (c 1 - 2 * us_per_hour), business_message (c 2 - 1 * us_per_hour),
        product_message (c 3 - 3 * us_per_hour), finance_message (c 4 - 30 * us_per_minute),
        feedback_message (c 5 - 4 * us_per_hour)] = []"
    using assms le by (simp add: retained_def us_per_hour_def us_per_minute_def)
  ultimately show ?thesis
    using True by (simp add: sort_reverse_def)
next
  case False
  from assms have v0: "valid_datetime (c 0)"
    by (simp add: valid_datetime_def us_per_hour_def)
  from False have "\<not> valid_datetime (c 0 - hours_back * us_per_hour)"
    by (simp add: valid_datetime_def)
  with False v0 show ?thesis
    by (simp add: get_latest_messages_closed now_minus_hours_cases)
qed

theorem nonpositive_hours_builtin_witness:
  "fst (get_latest_messages (- 5) (Some [''finance''])
          (MessageRetriever_init, ticking_clock new_year_2024 1000)) = Inr []"
proof -
  let ?c = "ticking_clock new_year_2024 1000"
  have 1: "(- 5 :: int) \<le> 0" by simp
  have 2: "4 * us_per_hour \<le> ?c 0"
    by (simp add: new_year_2024_def us_per_day_def us_per_hour_def)
  have 3: "?c 0 \<le> ?c 1" "?c 1 \<le> ?c 2" "?c 2 \<le> ?c 3" "?c 3 \<le> ?c 4" "?c 4 \<le> ?c 5"
    by (simp_all add: ticking_clock_def)
  have 4: "?c 5 < ?c 0 + 30 * us_per_minute"
    by (simp add: us_per_minute_def)
  have 5: "?c 0 < datetime_limit"
    by (simp add: new_year_2024_def datetime_limit_def us_per_day_def)
  from nonpositive_hours_builtin [where c = ?c and hours_back = "- 5"
      and categories = "Some [''finance'']", OF 1 2 3 4 5]
  show ?thesis
    by (simp add: new_year_2024_def datetime_limit_def us_per_day_def us_per_hour_def)
qed

text \<open>
  Neither "raises no error" nor "returns the empty list" holds for every
  \<^verbatim>\<open>hours_back <= 0\<close> and every clock. At 2024-01-01, \<^verbatim>\<open>hours_back=-70000000\<close> puts the
  cutoff after the year 9999 and the call raises \<^verbatim>\<open>OverflowError\<close>. And with
  \<^verbatim>\<open>hours_back=0\<close>, when local time steps forward by 31 minutes after the reading for the
  cutoff, the finance record is stamped one minute after the cutoff and is returned.
\<close>

theorem nonpositive_hours_builtin_counterexample:
  "fst (get_latest_messages (- 70000000) None
          (MessageRetriever_init, ticking_clock new_year_2024 1000)) = Inl OverflowError \<and>
   fst (get_latest_messages 0 None
          (MessageRetriever_init, stepping_clock new_year_2024 1 (31 * us_per_minute))) =
     Inr [finance_message (new_year_2024 + 31 * us_per_minute - 30 * us_per_minute)]"
proof -
  have 1: "fst (get_latest_messages (- 70000000) None
          (MessageRetriever_init, ticking_clock new_year_2024 1000)) = Inl OverflowError"
    by (simp add: get_latest_messages_closed now_minus_hours_cases valid_datetime_def
        new_year_2024_def datetime_limit_def us_per_day_def us_per_hour_def)
  have 2: "fst (get_latest_messages 0 None
          (MessageRetriever_init, stepping_clock new_year_2024 1 (31 * us_per_minute))) =
     Inr [finance_message (new_year_2024 + 31 * us_per_minute - 30 * us_per_minute)]"
    by (simp add: stepping_call us_per_hour_def us_per_minute_def)
      (simp add: stepping_clock_def retained_def sort_reverse_def us_per_hour_def
        us_per_minute_def)
  from 1 2 show ?thesis by simp
qed

end
